theory Spec2Isabelle
  imports Main
begin

section \<open>The booking front-end: the state of the App component\<close>

text \<open>
  The component of \<^verbatim>\<open>termine-fe/src/App.js\<close> keeps its state in
  \<^verbatim>\<open>useState\<close> cells. The cells are the fields of one record; a setter
  \<^verbatim>\<open>setX(v)\<close> is the record update of the field \<open>X\<close>. Values that
  come from the server as parsed JSON and are only stored (the slot list, the coupons, the
  booked list, the booking form data) are kept as a JSON value.
\<close>

datatype json =
    JNull
  | JBool bool
  | JNum int
  | JStr string
  | JArr "json list"
  | JObj "(string \<times> json) list"

text \<open>
  Modelled from the spec: the constant \<^verbatim>\<open>INFOBOX_STATES\<close> is imported from
  \<^verbatim>\<open>./utils\<close>, which is not among the sources. The spec gives the info-box state
  as the enumeration initial / form-input / success / error; the constructors carry the
  names under which App.js reads them.
\<close>

datatype infobox_states = INITIAL | FORM_INPUT | APPOINTMENT_SUCCESS | ERROR

text \<open>The constant \<^verbatim>\<open>TAB\<close> of App.js.\<close>

datatype tab = BOOK | BOOKED

record appointment =
  slotStartDateTime :: string
  lengthMin :: int

record infobox =
  state :: infobox_states
  msg :: string

record form_state =
  firstName :: string
  name :: string
  phone :: string
  office :: string

record app_state =
  triggerRefresh :: bool
  selectedAppointment :: appointment
  bookedAppointment :: appointment
  showSpinner :: bool
  freeSlotList :: json
  coupons :: json
  claimToken :: string
  startDateTime :: string
  focusOnList :: bool
  infoboxState :: infobox
  formState :: form_state
  currentTab :: tab
  bookedList :: json
  startDate :: int
  endDate :: int

text \<open>
  The initial values of the \<^verbatim>\<open>useState\<close> calls. \<open>promiseInProgress\<close> is the flag
  of the promise tracker at the first render, \<open>now\<close> and \<open>now'\<close> the values of the two
  calls of \<^verbatim>\<open>new Date()\<close>, as milliseconds.
\<close>

definition initial_state :: "bool \<Rightarrow> int \<Rightarrow> int \<Rightarrow> app_state" where
  "initial_state promiseInProgress now now' =
     \<lparr> triggerRefresh = True,
       selectedAppointment = \<lparr> slotStartDateTime = '''', lengthMin = 0 \<rparr>,
       bookedAppointment = \<lparr> slotStartDateTime = '''', lengthMin = 0 \<rparr>,
       showSpinner = promiseInProgress,
       freeSlotList = JNull,
       coupons = JNull,
       claimToken = '''',
       startDateTime = '''',
       focusOnList = True,
       infoboxState = \<lparr> state = INITIAL, msg = '''' \<rparr>,
       formState = \<lparr> firstName = '''', name = '''', phone = '''', office = '''' \<rparr>,
       currentTab = BOOK,
       bookedList = JArr [],
       startDate = now,
       endDate = now' \<rparr>"

section \<open>The HTTP client as seen from App.js\<close>

text \<open>
  The module \<^verbatim>\<open>./Api\<close> is not among the sources; App.js only calls it. Each call
  returns a promise. A promise that resolves carries a response, of which App.js reads
  \<^verbatim>\<open>response.status\<close> and \<^verbatim>\<open>response.data\<close>. A promise that rejects carries
  an error, of which App.js reads \<^verbatim>\<open>error.response.status\<close>: the error of a request
  the server answered has a response, the error of a request that got no answer (the
  network is down, the request timed out) has none, and \<^verbatim>\<open>error.response\<close> is then
  undefined.
\<close>

record 'a response =
  status :: int
  data :: 'a

datatype api_error = ApiError (error_response: "json response option")

datatype 'a promise = Resolved "'a response" | Rejected api_error

text \<open>The data of the responses whose fields App.js reads.\<close>

record slots_data =
  data_slots :: json
  data_coupons :: json

record booking_data =
  secret :: string
  time_slot :: string
  slot_length_min :: int

text \<open>
  What an operation does besides updating the state: the requests it sends, in the order
  in which it sends them, what it writes to the console, the focus it sets, and the
  exception that leaves a handler (reading \<^verbatim>\<open>error.response.status\<close> when
  \<^verbatim>\<open>error.response\<close> is undefined throws a TypeError, and the rest of the handler
  does not run).
\<close>

datatype api_call =
    FetchSlots
  | FetchBooked string string
  | ClaimSlot string
  | UnClaimSlot string
  | Book json
  | Logout

datatype effect =
    Call api_call
  | ConsoleError api_error
  | SetInputFocus
  | ThrowTypeError

text \<open>The two messages of the error handlers, as the code units of the JavaScript strings.\<close>

definition msg_gone :: string where
  "msg_gone =
     ''Leider ist der Termin inzwischen nicht mehr buchbar, bitte einen anderen Termin w''
     @ [CHR 0xE4] @ ''hlen.''"

definition msg_unknown :: string where
  "msg_unknown = ''Ein unbekannter Fehler ist aufgetreten, bitte Seite neu laden.''"

section \<open>The operations\<close>

text \<open>
  An operation is modelled from the call of the function to the settlement of the promises
  it waits for. The outcome of each request is an argument. Two states are kept apart:
  \<^item> \<open>c\<close>, the state of the render that created the function: the values its closure
    reads (\<^verbatim>\<open>claimToken\<close>, \<^verbatim>\<open>formState\<close>, \<^verbatim>\<open>startDate\<close>,
    \<^verbatim>\<open>endDate\<close>), at the call and also later, inside the handlers of its promises;
  \<^item> \<open>s\<close>, the state of the cells when the promise settles: what the setters of the
    handlers update. Other setters may have run while the request was pending (the view
    holds \<^verbatim>\<open>setFormState\<close> and \<^verbatim>\<open>setSelectedAppointment\<close>), so \<open>s\<close> need not
    be \<open>c\<close>.

  An operation that reads nothing from its closure has the argument \<open>s\<close> only.
\<close>

text \<open>The setter of the form state, which App.js hands to the booking view.\<close>

definition setFormState :: "form_state \<Rightarrow> app_state \<Rightarrow> app_state" where
  "setFormState f s = s\<lparr> formState := f \<rparr>"

subsection \<open>Fetching the lists\<close>

definition getSlotListData :: "slots_data promise \<Rightarrow> app_state \<Rightarrow> effect list \<times> app_state" where
  "getSlotListData fetched s =
     ([Call FetchSlots],
      (case fetched of
         Resolved response \<Rightarrow>
           if status response = 200
           then s\<lparr> freeSlotList := data_slots (data response),
                   coupons := data_coupons (data response) \<rparr>
           else s
       | Rejected error \<Rightarrow> s))"

text \<open>
  \<^verbatim>\<open>ISOStringWithoutTimeZone\<close> comes from \<^verbatim>\<open>./utils\<close> and is not among the
  sources: it is the parameter \<open>isoString\<close>.
\<close>

definition getBookedListData ::
  "(int \<Rightarrow> string) \<Rightarrow> app_state \<Rightarrow> json promise \<Rightarrow> app_state
     \<Rightarrow> effect list \<times> app_state" where
  "getBookedListData isoString c fetched s =
     ([Call (FetchBooked (isoString (startDate c)) (isoString (endDate c)))],
      (case fetched of
         Resolved response \<Rightarrow>
           if status response = 200 then s\<lparr> bookedList := data response \<rparr> else s
       | Rejected error \<Rightarrow> s))"

subsection \<open>Claiming, booking, cancelling, logging out\<close>

text \<open>
  The \<^verbatim>\<open>catch\<close> handler of the claim request. The argument of
  \<^verbatim>\<open>setInfoboxState\<close> is evaluated before any setter is called.
\<close>

definition claimAppointment_catch :: "api_error \<Rightarrow> app_state \<Rightarrow> effect list \<times> app_state" where
  "claimAppointment_catch error s =
     (case error_response error of
        None \<Rightarrow> ([ThrowTypeError], s)
      | Some r \<Rightarrow>
          ([],
           s\<lparr> infoboxState :=
                 \<lparr> state = ERROR,
                   msg = (if status r = 410 then msg_gone else msg_unknown) \<rparr>,
               startDateTime := '''',
               claimToken := '''',
               focusOnList := True \<rparr>))"

text \<open>The \<^verbatim>\<open>catch\<close> handler of the booking request: the same body.\<close>

definition onBook_catch :: "api_error \<Rightarrow> app_state \<Rightarrow> effect list \<times> app_state" where
  "onBook_catch error s =
     (case error_response error of
        None \<Rightarrow> ([ThrowTypeError], s)
      | Some r \<Rightarrow>
          ([],
           s\<lparr> infoboxState :=
                 \<lparr> state = ERROR,
                   msg = (if status r = 410 then msg_gone else msg_unknown) \<rparr>,
               startDateTime := '''',
               claimToken := '''',
               focusOnList := True \<rparr>))"

text \<open>
  The release of the old token inside \<^verbatim>\<open>claimAppointment\<close>: the promise has no
  \<^verbatim>\<open>then\<close>, and its \<^verbatim>\<open>catch\<close> has an empty body.
\<close>

definition unclaim_old :: "unit promise \<Rightarrow> app_state \<Rightarrow> effect list \<times> app_state" where
  "unclaim_old unclaimed s =
     (case unclaimed of
        Resolved response \<Rightarrow> ([], s)
      | Rejected error \<Rightarrow> ([], s))"

text \<open>
  \<^verbatim>\<open>claimAppointment\<close> reads \<^verbatim>\<open>claimToken\<close> at the call and spreads
  \<^verbatim>\<open>formState\<close> inside the handler of the resolved claim: both are the values of its
  closure, \<open>c\<close>. The setters update the cells, \<open>s\<close>.
\<close>

definition claimAppointment ::
  "app_state \<Rightarrow> string \<Rightarrow> int \<Rightarrow> unit promise \<Rightarrow> string promise \<Rightarrow> app_state
     \<Rightarrow> effect list \<times> app_state" where
  "claimAppointment c startDateTime' slotLengthMin unclaimed claimed s =
     (let (es1, s1) =
            (if claimToken c \<noteq> ''''
             then (let (es, s') = unclaim_old unclaimed s
                   in (Call (UnClaimSlot (claimToken c)) # es, s'))
             else ([], s));
          (es2, s2) =
            (case claimed of
               Resolved response \<Rightarrow>
                 ([],
                  s1\<lparr> infoboxState := \<lparr> state = FORM_INPUT, msg = '''' \<rparr>,
                      startDateTime := startDateTime',
                      selectedAppointment :=
                        \<lparr> slotStartDateTime = startDateTime', lengthMin = slotLengthMin \<rparr>,
                      claimToken := data response,
                      formState :=
                        (formState c)\<lparr> firstName := '''', name := '''', phone := '''' \<rparr>,
                      focusOnList := False \<rparr>)
             | Rejected error \<Rightarrow> claimAppointment_catch error s1)
      in (es1 @ Call (ClaimSlot startDateTime') # es2, s2))"

definition onBook :: "json \<Rightarrow> booking_data promise \<Rightarrow> app_state \<Rightarrow> effect list \<times> app_state" where
  "onBook form_data booked s =
     (let (es, s') =
            (case booked of
               Resolved response \<Rightarrow>
                 ([],
                  s\<lparr> infoboxState :=
                        \<lparr> state = APPOINTMENT_SUCCESS, msg = secret (data response) \<rparr>,
                      startDateTime := time_slot (data response),
                      bookedAppointment :=
                        \<lparr> slotStartDateTime = time_slot (data response),
                          lengthMin = slot_length_min (data response) \<rparr>,
                      claimToken := '''',
                      focusOnList := True \<rparr>)
             | Rejected error \<Rightarrow> onBook_catch error s)
      in (Call (Book form_data) # es, s'))"

text \<open>
  \<^verbatim>\<open>onCancelBooking\<close> reads \<^verbatim>\<open>claimToken\<close> at the call and spreads
  \<^verbatim>\<open>formState\<close> inside the handler of the resolved unclaim, both from its closure.
\<close>

definition onCancelBooking ::
  "app_state \<Rightarrow> unit promise \<Rightarrow> app_state \<Rightarrow> effect list \<times> app_state" where
  "onCancelBooking c unclaimed s =
     (let (es, s') =
            (case unclaimed of
               Resolved response \<Rightarrow>
                 ([],
                  s\<lparr> infoboxState := \<lparr> state = INITIAL, msg = '''' \<rparr>,
                      startDateTime := '''',
                      claimToken := '''',
                      focusOnList := True,
                      formState :=
                        (formState c)\<lparr> firstName := '''', name := '''', phone := '''' \<rparr> \<rparr>)
             | Rejected error \<Rightarrow> ([ConsoleError error], s))
      in (Call (UnClaimSlot (claimToken c)) # es, s'))"

text \<open>The promise of \<^verbatim>\<open>Api.logout()\<close> is dropped: no handler reads its outcome.\<close>

definition logout :: "unit promise \<Rightarrow> app_state \<Rightarrow> effect list \<times> app_state" where
  "logout logged_out s = ([Call Logout], s)"

subsection \<open>The effect that follows the focus switch\<close>

text \<open>
  \<^verbatim>\<open>focusOnList\<close> switches between the slot table and the form:
  \<^verbatim>\<open>refreshList\<close> when it is set, the focus on the form's input otherwise.
\<close>

definition refreshList :: "app_state \<Rightarrow> app_state" where
  "refreshList s = s\<lparr> triggerRefresh := True \<rparr>"

definition focusEffect :: "app_state \<Rightarrow> effect list \<times> app_state" where
  "focusEffect s = (if focusOnList s then ([], refreshList s) else ([SetInputFocus], s))"

subsection \<open>The timers\<close>

text \<open>
  The timers of the browser: \<^verbatim>\<open>setInterval\<close> and \<^verbatim>\<open>setTimeout\<close> register a
  callback and return its handle, \<^verbatim>\<open>clearInterval\<close> and \<^verbatim>\<open>clearTimeout\<close> remove
  the timer of a handle; the handle \<^verbatim>\<open>null\<close> (here \<open>None\<close>) names no timer.
  A timer that is still registered is one that can fire.
\<close>

datatype timer_callback = RefetchSlotList | HideSpinner

datatype timer_kind = Repeating | OneShot

record timer =
  timer_id :: nat
  kind :: timer_kind
  delay_ms :: nat
  callback :: timer_callback

record timers =
  next_id :: nat
  pending :: "timer list"

definition no_timers :: timers where
  "no_timers = \<lparr> next_id = 1, pending = [] \<rparr>"

definition setInterval :: "timer_callback \<Rightarrow> nat \<Rightarrow> timers \<Rightarrow> nat \<times> timers" where
  "setInterval cb ms ts =
     (next_id ts,
      \<lparr> next_id = Suc (next_id ts),
        pending = pending ts
          @ [\<lparr> timer_id = next_id ts, kind = Repeating, delay_ms = ms, callback = cb \<rparr>] \<rparr>)"

definition setTimeout :: "timer_callback \<Rightarrow> nat \<Rightarrow> timers \<Rightarrow> nat \<times> timers" where
  "setTimeout cb ms ts =
     (next_id ts,
      \<lparr> next_id = Suc (next_id ts),
        pending = pending ts
          @ [\<lparr> timer_id = next_id ts, kind = OneShot, delay_ms = ms, callback = cb \<rparr>] \<rparr>)"

definition clearInterval :: "nat option \<Rightarrow> timers \<Rightarrow> timers" where
  "clearInterval handle ts =
     (case handle of
        None \<Rightarrow> ts
      | Some i \<Rightarrow> ts\<lparr> pending := filter (\<lambda>t. timer_id t \<noteq> i) (pending ts) \<rparr>)"

definition clearTimeout :: "nat option \<Rightarrow> timers \<Rightarrow> timers" where
  "clearTimeout handle ts =
     (case handle of
        None \<Rightarrow> ts
      | Some i \<Rightarrow> ts\<lparr> pending := filter (\<lambda>t. timer_id t \<noteq> i) (pending ts) \<rparr>)"

text \<open>
  The effect "refresh once on triggerRefresh, then every 60 sec". It returns the requests
  it sends, the state, the value of its variable \<^verbatim>\<open>interval\<close> (which its cleanup
  reads) and the timers. The fetch it starts settles later, as \<open>getSlotListData\<close>.
\<close>

definition slotRefreshEffect ::
  "app_state \<Rightarrow> timers \<Rightarrow> effect list \<times> app_state \<times> nat option \<times> timers" where
  "slotRefreshEffect s ts =
     (let es = (if triggerRefresh s then [Call FetchSlots] else []);
          s' = s\<lparr> triggerRefresh := False \<rparr>;
          (i, ts') = setInterval RefetchSlotList 60000 ts;
          interval = Some i
      in (es, s', interval, ts'))"

definition slotRefreshCleanup :: "nat option \<Rightarrow> timers \<Rightarrow> timers" where
  "slotRefreshCleanup interval ts = clearInterval interval ts"

text \<open>
  The effect "let the spinner animation run for 1.25 secs". Its variable
  \<^verbatim>\<open>timeout\<close> is initialised with \<^verbatim>\<open>null\<close> and never assigned: the handle that
  \<^verbatim>\<open>setTimeout\<close> returns is dropped.
\<close>

definition spinnerEffect :: "bool \<Rightarrow> app_state \<Rightarrow> timers \<Rightarrow> app_state \<times> nat option \<times> timers" where
  "spinnerEffect promiseInProgress s ts =
     (let timeout = None
      in if promiseInProgress then (s\<lparr> showSpinner := True \<rparr>, timeout, ts)
         else if showSpinner s
         then (let (i, ts') = setTimeout HideSpinner 1250 ts in (s, timeout, ts'))
         else (s, timeout, ts))"

definition spinnerCleanup :: "nat option \<Rightarrow> timers \<Rightarrow> timers" where
  "spinnerCleanup timeout ts = clearTimeout timeout ts"

text \<open>
  Tearing the component down runs the cleanups of both effects, each with the variable of
  its effect.
\<close>

definition teardown :: "nat option \<times> nat option \<Rightarrow> timers \<Rightarrow> timers" where
  "teardown handles ts = spinnerCleanup (snd handles) (slotRefreshCleanup (fst handles) ts)"

text \<open>The requests among the effects of an operation, in their order.\<close>

fun calls :: "effect list \<Rightarrow> api_call list" where
  "calls [] = []"
| "calls (Call c # es) = c # calls es"
| "calls (e # es) = calls es"

subsection \<open>Runs of the component\<close>

text \<open>
  The operations a user or the component itself can start, each with the outcomes of its
  requests, and the state after a sequence of them. In a run every operation starts from
  the current state and its requests settle before the next operation starts: the state of
  its closure and the state of the cells are the same.
\<close>

datatype event =
    EvClaim string int "unit promise" "string promise"
  | EvBook json "booking_data promise"
  | EvCancel "unit promise"
  | EvLogout "unit promise"
  | EvSlots "slots_data promise"
  | EvBooked "json promise"

fun step :: "(int \<Rightarrow> string) \<Rightarrow> event \<Rightarrow> app_state \<Rightarrow> app_state" where
  "step isoString (EvClaim t len unclaimed claimed) s =
     snd (claimAppointment s t len unclaimed claimed s)"
| "step isoString (EvBook form_data booked) s = snd (onBook form_data booked s)"
| "step isoString (EvCancel unclaimed) s = snd (onCancelBooking s unclaimed s)"
| "step isoString (EvLogout logged_out) s = snd (logout logged_out s)"
| "step isoString (EvSlots fetched) s = snd (getSlotListData fetched s)"
| "step isoString (EvBooked fetched) s = snd (getBookedListData isoString s fetched s)"

text \<open>
  The hold as the spec describes it, seen from the client: a claim that succeeds holds a
  slot under the token of its response; a booking that succeeds, a cancellation that
  succeeds, a claim that fails and a booking that fails end the hold; nothing else changes
  it. This follows the words of the spec, not the code, and is what the claim token of the
  code is compared with.
\<close>

fun hold_after :: "event \<Rightarrow> string option \<Rightarrow> string option" where
  "hold_after (EvClaim t len unclaimed (Resolved r)) h = Some (data r)"
| "hold_after (EvClaim t len unclaimed (Rejected e)) h = None"
| "hold_after (EvBook form_data booked) h = None"
| "hold_after (EvCancel (Resolved r)) h = None"
| "hold_after (EvCancel (Rejected e)) h = h"
| "hold_after ev h = h"

fun run ::
  "(int \<Rightarrow> string) \<Rightarrow> event list \<Rightarrow> app_state \<times> string option
     \<Rightarrow> app_state \<times> string option" where
  "run isoString [] c = c"
| "run isoString (ev # evs) (s, h) = run isoString evs (step isoString ev s, hold_after ev h)"

text \<open>A non-empty claim token is the token of the hold.\<close>

definition token_held :: "app_state \<times> string option \<Rightarrow> bool" where
  "token_held c = (claimToken (fst c) = '''' \<or> snd c = Some (claimToken (fst c)))"

text \<open>The events whose failed claim or booking was answered by the server.\<close>

fun answered :: "event \<Rightarrow> bool" where
  "answered (EvClaim t len unclaimed (Rejected e)) = (error_response e \<noteq> None)"
| "answered (EvBook form_data (Rejected e)) = (error_response e \<noteq> None)"
| "answered ev = True"

section \<open>Properties\<close>

lemma msg_gone_neq_unknown: "msg_gone \<noteq> msg_unknown"
  by (simp add: msg_gone_def msg_unknown_def)

text \<open>
  C3: claiming a slot sends the start time to the claim request; when the request
  succeeds, the data of the response is stored as the claim token, the selected appointment
  is the start time and the slot length, and the info-box is in the form-input state; when
  it fails with the status 410, the info-box tells that the slot is no longer bookable.
\<close>

theorem claimAppointment_claims:
  "ClaimSlot t \<in> set (calls (fst (claimAppointment c t len u claimed s)))
   \<and> claimToken (snd (claimAppointment c t len u (Resolved r) s)) = data r
   \<and> selectedAppointment (snd (claimAppointment c t len u (Resolved r) s))
       = \<lparr> slotStartDateTime = t, lengthMin = len \<rparr>
   \<and> state (infoboxState (snd (claimAppointment c t len u (Resolved r) s))) = FORM_INPUT
   \<and> infoboxState
        (snd (claimAppointment c t len u
           (Rejected (ApiError (Some \<lparr> status = 410, data = d \<rparr>))) s))
       = \<lparr> state = ERROR, msg = msg_gone \<rparr>"
  by (simp add: claimAppointment_def claimAppointment_catch_def unclaim_old_def Let_def
      split: prod.split promise.split option.split)

text \<open>
  C4: after a booking request that succeeds, the info-box is in the success state with the
  confirmation secret of the response as its message, the booked appointment is the slot
  time and the slot length of the response, and the claim token is the empty string.
\<close>

theorem onBook_success:
  "infoboxState (snd (onBook form_data (Resolved r) s))
       = \<lparr> state = APPOINTMENT_SUCCESS, msg = secret (data r) \<rparr>
   \<and> bookedAppointment (snd (onBook form_data (Resolved r) s))
       = \<lparr> slotStartDateTime = time_slot (data r), lengthMin = slot_length_min (data r) \<rparr>
   \<and> claimToken (snd (onBook form_data (Resolved r) s)) = ''''"
  by (simp add: onBook_def)

text \<open>
  C6: cancelling a booking sends the stored claim token to the unclaim request; when the
  request succeeds, the info-box is in the initial state with the empty message, the start
  time and the claim token are empty strings, the first name, the name and the phone of the
  form are empty, and the focus switch points to the slot list, so that the effect that
  follows it does not focus the form.
\<close>

theorem onCancelBooking_success:
  "calls (fst (onCancelBooking c unclaimed s)) = [UnClaimSlot (claimToken c)]
   \<and> infoboxState (snd (onCancelBooking c (Resolved r) s)) = \<lparr> state = INITIAL, msg = '''' \<rparr>
   \<and> startDateTime (snd (onCancelBooking c (Resolved r) s)) = ''''
   \<and> claimToken (snd (onCancelBooking c (Resolved r) s)) = ''''
   \<and> firstName (formState (snd (onCancelBooking c (Resolved r) s))) = ''''
   \<and> name (formState (snd (onCancelBooking c (Resolved r) s))) = ''''
   \<and> phone (formState (snd (onCancelBooking c (Resolved r) s))) = ''''
   \<and> focusOnList (snd (onCancelBooking c (Resolved r) s))
   \<and> fst (focusEffect (snd (onCancelBooking c (Resolved r) s))) = []"
  by (cases unclaimed) (simp_all add: onCancelBooking_def focusEffect_def)

text \<open>
  C8: a claim sends the old token to the unclaim request and then the start time to the
  claim request when the stored token is not empty, and only the claim request when it is
  empty, whatever the outcomes of the requests.
\<close>

theorem claimAppointment_calls:
  "calls (fst (claimAppointment c t len unclaimed claimed s))
     = (if claimToken c = '''' then [ClaimSlot t]
        else [UnClaimSlot (claimToken c), ClaimSlot t])"
  by (simp add: claimAppointment_def claimAppointment_catch_def unclaim_old_def
      split: promise.split option.split)

text \<open>
  After a claim that succeeds and after a cancellation that succeeds the form state is the
  one of the closure with the first name, the name and the phone emptied, whatever the cell
  of the form state held when the response came.
\<close>

lemma formState_after_success:
  "formState (snd (claimAppointment c t len unclaimed (Resolved r) s))
     = (formState c)\<lparr> firstName := '''', name := '''', phone := '''' \<rparr>"
  "formState (snd (onCancelBooking c (Resolved r') s))
     = (formState c)\<lparr> firstName := '''', name := '''', phone := '''' \<rparr>"
  by (simp_all add: claimAppointment_def unclaim_old_def onCancelBooking_def
      split: promise.split)

text \<open>
  C9, as stated, fails: a slot is claimed under \<open>token-A\<close> and the form is shown with an
  empty office; the user starts the claim of another slot, or the cancellation, and enters
  the office \<open>HQ\<close> while the request is pending (the view calls
  \<^verbatim>\<open>setFormState\<close>); the response comes and the handler spreads the form state of its
  closure: the office \<open>HQ\<close> of before is replaced by the empty office of the render
  in which the operation was started.
\<close>

theorem office_overwritten_by_stale_closure:
  "office (formState
     (setFormState \<lparr> firstName = '''', name = '''', phone = '''', office = ''HQ'' \<rparr>
        (snd (claimAppointment (initial_state False 0 0) ''2020-04-01T10:00'' 15
           (Resolved \<lparr> status = 200, data = () \<rparr>)
           (Resolved \<lparr> status = 200, data = ''token-A'' \<rparr>) (initial_state False 0 0)))))
     = ''HQ''
   \<and> office (formState (snd
       (claimAppointment
          (snd (claimAppointment (initial_state False 0 0) ''2020-04-01T10:00'' 15
             (Resolved \<lparr> status = 200, data = () \<rparr>)
             (Resolved \<lparr> status = 200, data = ''token-A'' \<rparr>) (initial_state False 0 0)))
          ''2020-04-01T10:15'' 15
          (Resolved \<lparr> status = 200, data = () \<rparr>)
          (Resolved \<lparr> status = 200, data = ''token-B'' \<rparr>)
          (setFormState \<lparr> firstName = '''', name = '''', phone = '''', office = ''HQ'' \<rparr>
             (snd (claimAppointment (initial_state False 0 0) ''2020-04-01T10:00'' 15
                (Resolved \<lparr> status = 200, data = () \<rparr>)
                (Resolved \<lparr> status = 200, data = ''token-A'' \<rparr>)
                (initial_state False 0 0)))))))
     = ''''
   \<and> office (formState (snd
       (onCancelBooking
          (snd (claimAppointment (initial_state False 0 0) ''2020-04-01T10:00'' 15
             (Resolved \<lparr> status = 200, data = () \<rparr>)
             (Resolved \<lparr> status = 200, data = ''token-A'' \<rparr>) (initial_state False 0 0)))
          (Resolved \<lparr> status = 200, data = () \<rparr>)
          (setFormState \<lparr> firstName = '''', name = '''', phone = '''', office = ''HQ'' \<rparr>
             (snd (claimAppointment (initial_state False 0 0) ''2020-04-01T10:00'' 15
                (Resolved \<lparr> status = 200, data = () \<rparr>)
                (Resolved \<lparr> status = 200, data = ''token-A'' \<rparr>)
                (initial_state False 0 0)))))))
     = ''''"
  by (simp add: formState_after_success setFormState_def initial_state_def)

text \<open>
  C9, amended: after a claim that succeeds and after a cancellation that succeeds, the
  first name, the name and the phone of the form are empty strings and the office is the
  one of the render in which the operation was started (the form state of the closure of
  the handler); it is the office of before when the operation starts from the current
  state and no setter runs while its request is pending.
\<close>

theorem formState_reset_office_of_closure:
  "formState (snd (claimAppointment c t len unclaimed (Resolved r) s))
       = \<lparr> firstName = '''', name = '''', phone = '''', office = office (formState c) \<rparr>
   \<and> formState (snd (onCancelBooking c (Resolved r') s))
       = \<lparr> firstName = '''', name = '''', phone = '''', office = office (formState c) \<rparr>
   \<and> formState (snd (claimAppointment s t len unclaimed (Resolved r) s))
       = \<lparr> firstName = '''', name = '''', phone = '''', office = office (formState s) \<rparr>
   \<and> formState (snd (onCancelBooking s (Resolved r') s))
       = \<lparr> firstName = '''', name = '''', phone = '''', office = office (formState s) \<rparr>"
  by (simp add: claimAppointment_def unclaim_old_def onCancelBooking_def
      split: promise.split)

text \<open>
  C10: the fetch of the slot list stores the slots and the coupons of the response, and the
  fetch of the booking history stores the booked list, when the status of the response is
  200 and changes no field of the state otherwise, also when the request is rejected; no
  exception leaves either of them.
\<close>

theorem fetches_update_only_on_200:
  "getSlotListData (Resolved r) s
       = ([Call FetchSlots],
          if status r = 200
          then s\<lparr> freeSlotList := data_slots (data r), coupons := data_coupons (data r) \<rparr>
          else s)
   \<and> getSlotListData (Rejected e) s = ([Call FetchSlots], s)
   \<and> getBookedListData isoString c (Resolved r') s
       = ([Call (FetchBooked (isoString (startDate c)) (isoString (endDate c)))],
          if status r' = 200 then s\<lparr> bookedList := data r' \<rparr> else s)
   \<and> getBookedListData isoString c (Rejected e) s
       = ([Call (FetchBooked (isoString (startDate c)) (isoString (endDate c)))], s)"
  by (simp add: getSlotListData_def getBookedListData_def)

text \<open>
  C7: a rejected unclaim request and a rejected logout request change no field of the
  state and show no message: the cancellation writes the error to the console, the release
  of the old token inside a claim does nothing (the claim ends as it does when the release
  succeeds), and the logout does nothing.
\<close>

theorem unclaim_logout_failures_silent:
  "onCancelBooking c (Rejected e) s = ([Call (UnClaimSlot (claimToken c)), ConsoleError e], s)
   \<and> unclaim_old (Rejected e) s = ([], s)
   \<and> claimAppointment c t len (Rejected e) claimed s
       = claimAppointment c t len (Resolved r) claimed s
   \<and> logout (Rejected e) s = ([Call Logout], s)"
  by (simp add: onCancelBooking_def unclaim_old_def claimAppointment_def logout_def)

subsection \<open>Failures of the claim and of the booking\<close>

text \<open>
  When the error of a rejected claim or booking carries a response, the info-box is in the
  error state, with the message of the status 410 exactly for that status and the general
  message for every other one, and the claim token is reset.
\<close>

lemma failure_with_response_infobox:
  "infoboxState (snd (claimAppointment c t len unclaimed (Rejected (ApiError (Some r))) s))
       = \<lparr> state = ERROR, msg = (if status r = 410 then msg_gone else msg_unknown) \<rparr>
   \<and> infoboxState (snd (onBook form_data (Rejected (ApiError (Some r))) s))
       = \<lparr> state = ERROR, msg = (if status r = 410 then msg_gone else msg_unknown) \<rparr>"
  by (simp add: claimAppointment_def claimAppointment_catch_def unclaim_old_def onBook_def
      onBook_catch_def split: promise.split)

lemma failure_with_response_message:
  "msg (infoboxState (snd (claimAppointment c t len unclaimed (Rejected (ApiError (Some r))) s)))
       = msg_gone \<longleftrightarrow> status r = 410"
  "msg (infoboxState (snd (onBook form_data (Rejected (ApiError (Some r))) s)))
       = msg_gone \<longleftrightarrow> status r = 410"
  using msg_gone_neq_unknown
  by (auto simp add: claimAppointment_def claimAppointment_catch_def unclaim_old_def onBook_def
      onBook_catch_def split: promise.split)

lemma failure_with_response_token:
  "claimToken (snd (claimAppointment c t len unclaimed (Rejected (ApiError (Some r))) s)) = ''''"
  "claimToken (snd (onBook form_data (Rejected (ApiError (Some r))) s)) = ''''"
  by (simp_all add: claimAppointment_def claimAppointment_catch_def unclaim_old_def onBook_def
      onBook_catch_def split: promise.split)

text \<open>
  When the error carries no response, the handler throws before it calls a setter: the
  state is the one of before.
\<close>

lemma failure_without_response:
  "claimAppointment c t len unclaimed (Rejected (ApiError None)) s
     = ((if claimToken c = '''' then [] else [Call (UnClaimSlot (claimToken c))])
          @ [Call (ClaimSlot t), ThrowTypeError], s)"
  "onBook form_data (Rejected (ApiError None)) s = ([Call (Book form_data), ThrowTypeError], s)"
  by (simp_all add: claimAppointment_def claimAppointment_catch_def unclaim_old_def onBook_def
      onBook_catch_def split: promise.split)

text \<open>
  The claim token after each operation: it is the data of the response after a claim that
  succeeds, and every other operation leaves it as it is or makes it empty.
\<close>

lemma claimToken_after_claimAppointment:
  "claimToken (snd (claimAppointment c t len unclaimed claimed s))
     = (case claimed of
          Resolved r \<Rightarrow> data r
        | Rejected e \<Rightarrow> (case error_response e of None \<Rightarrow> claimToken s | Some r \<Rightarrow> ''''))"
  by (simp add: claimAppointment_def claimAppointment_catch_def unclaim_old_def
      split: promise.split option.split)

lemma claimToken_after_onBook:
  "claimToken (snd (onBook form_data booked s))
     = (case booked of
          Resolved r \<Rightarrow> ''''
        | Rejected e \<Rightarrow> (case error_response e of None \<Rightarrow> claimToken s | Some r \<Rightarrow> ''''))"
  by (simp add: onBook_def onBook_catch_def split: promise.split option.split)

lemma claimToken_after_onCancelBooking:
  "claimToken (snd (onCancelBooking c unclaimed s))
     = (case unclaimed of Resolved r \<Rightarrow> '''' | Rejected e \<Rightarrow> claimToken s)"
  by (simp add: onCancelBooking_def split: promise.split)

lemma claimToken_after_others:
  "claimToken (snd (logout logged_out s)) = claimToken s"
  "claimToken (snd (getSlotListData fetched s)) = claimToken s"
  "claimToken (snd (getBookedListData isoString c fetched' s)) = claimToken s"
  "claimToken (snd (focusEffect s)) = claimToken s"
  by (simp_all add: logout_def getSlotListData_def getBookedListData_def focusEffect_def
      refreshList_def split: promise.split)

text \<open>
  As long as every failed claim and every failed booking carries a response, a non-empty
  claim token is the token of the hold, in every state the component reaches.
\<close>

lemma step_token_held:
  assumes "answered ev" and "token_held (s, h)"
  shows "token_held (step isoString ev s, hold_after ev h)"
proof (cases ev)
  case (EvClaim t len unclaimed claimed)
  with assms show ?thesis
    by (cases claimed) (auto simp add: token_held_def claimToken_after_claimAppointment)
next
  case (EvBook form_data booked)
  with assms show ?thesis
    by (cases booked) (auto simp add: token_held_def claimToken_after_onBook)
next
  case (EvCancel unclaimed)
  with assms show ?thesis
    by (cases unclaimed) (auto simp add: token_held_def claimToken_after_onCancelBooking)
qed (use assms in \<open>auto simp add: token_held_def claimToken_after_others\<close>)

lemma run_token_held:
  "list_all answered evs \<Longrightarrow> token_held c \<Longrightarrow> token_held (run isoString evs c)"
proof (induction evs arbitrary: c)
  case Nil
  then show ?case by simp
next
  case (Cons ev evs)
  obtain s h where c: "c = (s, h)" by (cases c)
  from Cons.prems have "token_held (step isoString ev s, hold_after ev h)"
    by (simp add: c step_token_held)
  with Cons show ?case by (simp add: c)
qed

lemma reachable_token_held:
  "list_all answered evs \<Longrightarrow> token_held (run isoString evs (initial_state p now now', None))"
  by (rule run_token_held) (simp_all add: token_held_def initial_state_def)

text \<open>
  A failed claim without a response breaks it: the first claim holds a slot under
  \<open>token-A\<close>, the second claim releases it and fails, and the token is still stored.
\<close>

lemma unanswered_claim_breaks_token_held:
  "\<not> token_held
       (run isoString
          [EvClaim ''2020-04-01T10:00'' 15 (Resolved \<lparr> status = 200, data = () \<rparr>)
             (Resolved \<lparr> status = 200, data = ''token-A'' \<rparr>),
           EvClaim ''2020-04-01T10:15'' 15 (Resolved \<lparr> status = 200, data = () \<rparr>)
             (Rejected (ApiError None))]
          (initial_state False 0 0, None))"
  by (simp add: token_held_def claimToken_after_claimAppointment)

text \<open>
  C2: a claim and a booking that are rejected with an error that carries no response (the
  request got no answer) leave the info-box as it was, here in the initial state with the
  empty message, where the claim asks for the error state with the general message.
\<close>

theorem failure_without_response_shows_no_message:
  "claimAppointment (initial_state False 0 0) ''2020-04-01T10:00'' 15
       (Resolved \<lparr> status = 200, data = () \<rparr>)
       (Rejected (ApiError None)) (initial_state False 0 0)
     = ([Call (ClaimSlot ''2020-04-01T10:00''), ThrowTypeError], initial_state False 0 0)
   \<and> onBook JNull (Rejected (ApiError None)) (initial_state False 0 0)
     = ([Call (Book JNull), ThrowTypeError], initial_state False 0 0)
   \<and> infoboxState (initial_state False 0 0) = \<lparr> state = INITIAL, msg = '''' \<rparr>"
  by (simp add: claimAppointment_def claimAppointment_catch_def onBook_def onBook_catch_def
      initial_state_def)

text \<open>
  C1: with the token of a claimed slot stored, a claim of another slot sends the stored
  token to the unclaim request; when the new claim is then rejected with an error that
  carries no response, the stored token is still the old, non-empty one, where the claim
  asks for the empty string after a claim that fails.
\<close>

theorem claim_failure_keeps_released_token:
  "claimAppointment
       (snd (claimAppointment (initial_state False 0 0) ''2020-04-01T10:00'' 15
          (Resolved \<lparr> status = 200, data = () \<rparr>)
          (Resolved \<lparr> status = 200, data = ''token-A'' \<rparr>) (initial_state False 0 0)))
       ''2020-04-01T10:15'' 15 (Resolved \<lparr> status = 200, data = () \<rparr>)
       (Rejected (ApiError None))
       (snd (claimAppointment (initial_state False 0 0) ''2020-04-01T10:00'' 15
          (Resolved \<lparr> status = 200, data = () \<rparr>)
          (Resolved \<lparr> status = 200, data = ''token-A'' \<rparr>) (initial_state False 0 0)))
     = ([Call (UnClaimSlot ''token-A''), Call (ClaimSlot ''2020-04-01T10:15''), ThrowTypeError],
        (initial_state False 0 0)
          \<lparr> selectedAppointment :=
              \<lparr> slotStartDateTime = ''2020-04-01T10:00'', lengthMin = 15 \<rparr>,
            claimToken := ''token-A'',
            startDateTime := ''2020-04-01T10:00'',
            focusOnList := False,
            infoboxState := \<lparr> state = FORM_INPUT, msg = '''' \<rparr> \<rparr>)"
  by (simp add: claimAppointment_def claimAppointment_catch_def unclaim_old_def
      initial_state_def)

subsection \<open>The timers at teardown\<close>

text \<open>The cleanup of the refresh effect removes the interval timer the effect registered.\<close>

lemma slotRefresh_interval_cancelled:
  assumes "\<forall>t \<in> set (pending ts). timer_id t < next_id ts"
  shows "(case slotRefreshEffect s ts of
            (es, s', interval, ts') \<Rightarrow> pending (slotRefreshCleanup interval ts')) = pending ts"
proof -
  have "filter (\<lambda>t. timer_id t \<noteq> next_id ts) (pending ts) = pending ts"
    using assms by (auto simp add: filter_id_conv)
  then show ?thesis
    by (simp add: slotRefreshEffect_def slotRefreshCleanup_def setInterval_def
        clearInterval_def)
qed

text \<open>
  The cleanup of the spinner effect removes no timer: the one-shot timer the effect
  registered stays.
\<close>

lemma spinner_timeout_not_cancelled:
  assumes "\<not> promiseInProgress" and "showSpinner s"
  shows "(case spinnerEffect promiseInProgress s ts of
            (s', timeout, ts') \<Rightarrow> pending (spinnerCleanup timeout ts'))
         = pending ts
           @ [\<lparr> timer_id = next_id ts, kind = OneShot, delay_ms = 1250, callback = HideSpinner \<rparr>]"
  using assms
  by (simp add: spinnerEffect_def spinnerCleanup_def setTimeout_def clearTimeout_def)

text \<open>
  C5: the first render runs the refresh effect, which starts the fetch and runs once more
  as it has cleared \<^verbatim>\<open>triggerRefresh\<close>; the fetch in progress shows the spinner; the
  fetch settles and the spinner effect registers the one-shot timer of 1.25 seconds; the
  component is torn down. The interval timer is gone, the one-shot timer is still
  registered, where the claim asks for both to be cancelled.
\<close>

theorem teardown_leaves_spinner_timeout:
  "(let (es1, s1, interval1, ts1) = slotRefreshEffect (initial_state False 0 0) no_timers;
        (es2, s2, interval2, ts2) = slotRefreshEffect s1 (slotRefreshCleanup interval1 ts1);
        (s3, timeout3, ts3) = spinnerEffect True s2 ts2;
        (s4, timeout4, ts4) = spinnerEffect False s3 (spinnerCleanup timeout3 ts3)
    in pending (teardown (interval2, timeout4) ts4))
   = [\<lparr> timer_id = 3, kind = OneShot, delay_ms = 1250, callback = HideSpinner \<rparr>]"
  by (simp add: slotRefreshEffect_def slotRefreshCleanup_def spinnerEffect_def
      spinnerCleanup_def teardown_def setInterval_def setTimeout_def clearInterval_def
      clearTimeout_def initial_state_def no_timers_def)

end
